theory Spec2Isabelle
  imports Complex_Main "HOL-Library.AList"
begin

section \<open>Values held by a DataFrame\<close>

text \<open>
  A calendar date as \<open>pd.to_datetime\<close> produces for the date-only format of
  \<open>config.py\<close> (midnight, no time zone).
\<close>

datatype date = Date (year: nat) (month: nat) (day: nat)

text \<open>
  A cell of a DataFrame. \<open>NaN\<close> stands for every missing marker (\<open>NaN\<close>,
  \<open>None\<close>, \<open>NaT\<close>): \<open>pd.isna\<close> is true exactly on it. \<open>Num\<close> is a
  finite number; only its sign and its comparison with zero are used, and those are exact
  on floats. \<open>Str\<close> is text, \<open>Ts\<close> a timestamp.
\<close>

datatype cell = NaN | Num real | Str string | Ts date

fun isna :: "cell \<Rightarrow> bool" where
  "isna NaN = True"
| "isna (Num x) = False"
| "isna (Str s) = False"
| "isna (Ts d) = False"

text \<open>
  The exceptions of \<open>transform.py\<close>. All three \<open>raise\<close> statements of the module raise
  \<open>ValueError\<close>; they differ in the message. The set of missing columns is kept as a set,
  as in the source, where its printed order is not fixed. \<open>TypeError\<close> is what Python
  raises when a text or a timestamp is compared with \<open>0\<close>; \<open>KeyError\<close> is a column
  lookup that fails.
\<close>

datatype message =
    Missing_required_columns "string set"
  | DataFrame_is_empty
  | Validation_failed string

datatype error = ValueError message | TypeError | KeyError string

section \<open>Compiled patterns (\<open>re.compile(..., re.IGNORECASE)\<close>)\<close>

text \<open>
  The regular expressions of \<open>CATEGORY_PATTERNS\<close> use literals, \<open>.\<close>, \<open>\s\<close>, \<open>*\<close>,
  concatenation and \<open>|\<close>. \<open>Zero\<close> (no match) is needed for derivatives only.
\<close>

datatype regex =
    Zero
  | Eps
  | Lit char
  | Dot
  | Space
  | Alt regex regex
  | Seq regex regex
  | Star regex

text \<open>ASCII case folding, as \<open>re.IGNORECASE\<close> does on ASCII text.\<close>

definition upper :: "char \<Rightarrow> char" where
  "upper c = (let n = (of_char c :: nat) in if 97 \<le> n \<and> n \<le> 122 then char_of (n - 32) else c)"

definition is_space :: "char \<Rightarrow> bool" where
  "is_space c = ((of_char c :: nat) \<in> {9, 10, 11, 12, 13, 32})"

fun nullable :: "regex \<Rightarrow> bool" where
  "nullable Zero = False"
| "nullable Eps = True"
| "nullable (Lit a) = False"
| "nullable Dot = False"
| "nullable Space = False"
| "nullable (Alt r s) = (nullable r \<or> nullable s)"
| "nullable (Seq r s) = (nullable r \<and> nullable s)"
| "nullable (Star r) = True"

fun deriv :: "char \<Rightarrow> regex \<Rightarrow> regex" where
  "deriv c Zero = Zero"
| "deriv c Eps = Zero"
| "deriv c (Lit a) = (if upper a = upper c then Eps else Zero)"
| "deriv c Dot = (if (of_char c :: nat) = 10 then Zero else Eps)"
| "deriv c Space = (if is_space c then Eps else Zero)"
| "deriv c (Alt r s) = Alt (deriv c r) (deriv c s)"
| "deriv c (Seq r s) =
     (if nullable r then Alt (Seq (deriv c r) s) (deriv c s) else Seq (deriv c r) s)"
| "deriv c (Star r) = Seq (deriv c r) (Star r)"

text \<open>\<open>pattern.match(text)\<close> is truthy when some prefix of the text matches.\<close>

fun re_match :: "regex \<Rightarrow> string \<Rightarrow> bool" where
  "re_match r [] = nullable r"
| "re_match r (c # cs) = (nullable r \<or> re_match (deriv c r) cs)"

text \<open>\<open>pattern.search(text)\<close> is truthy when a match starts at some position.\<close>

fun re_search :: "regex \<Rightarrow> string \<Rightarrow> bool" where
  "re_search r [] = nullable r"
| "re_search r (c # cs) = (re_match r (c # cs) \<or> re_search r cs)"

text \<open>A word of the pattern source, and \<open>a|b|...\<close>.\<close>

fun Word :: "string \<Rightarrow> regex" where
  "Word [] = Eps"
| "Word [c] = Lit c"
| "Word (c # cs) = Seq (Lit c) (Word cs)"

fun Alts :: "regex list \<Rightarrow> regex" where
  "Alts [] = Zero"
| "Alts [r] = r"
| "Alts (r # rs) = Alt r (Alts rs)"

section \<open>\<open>config.py\<close>\<close>

text \<open>
  A compiled pattern is used through \<open>search\<close> only, so a rule is a label with the
  predicate "the pattern is found in the text". The dictionary is iterated in insertion
  order, which for a literal is the order of declaration: an association list.
\<close>

type_synonym pattern = "string \<Rightarrow> bool"
type_synonym rules = "(string \<times> pattern) list"

definition CATEGORY_PATTERNS :: rules where
  "CATEGORY_PATTERNS =
    [(''Income'', re_search (Alts [Word ''PAYCHECK'', Word ''SALARY'',
        Seq (Word ''DEPOSIT'') (Seq (Star Dot) (Word ''EMPLOYER'')),
        Seq (Word ''DD'') (Seq (Star Space) (Word ''-'')),
        Seq (Word ''DIRECT'') (Seq (Star Space) (Word ''DEPOSIT''))])),
     (''Food & Dining'', re_search (Alts [Word ''STARBUCKS'', Word ''SBX'', Word ''CHIPOTLE'',
        Word ''7-ELEVEN'', Word ''7-11'', Word ''COFFEE'', Word ''RESTAURANT'', Word ''SAFA'',
        Word ''CHOWMEIN'', Word ''KHANA''])),
     (''Entertainment'', re_search (Alts [Word ''NETFLIX'', Word ''SPOTIFY'', Word ''HULU'',
        Word ''DISNEY''])),
     (''Transportation'', re_search (Alts [Word ''UBER'', Word ''LYFT'', Word ''SHELL'',
        Word ''FUEL'', Word ''GAS'', Word ''INDRIVE''])),
     (''Groceries'', re_search (Alts [Seq (Word ''WHOLE'') (Seq (Star Space) (Word ''FOODS'')),
        Word ''WFM'', Seq (Word ''TRADER'') (Seq (Star Space) (Word ''JOE'')), Word ''COSTCO''])),
     (''Bills'', re_search (Alts [Word ''RENT'', Word ''LANDLORD'', Word ''UTILITIES'',
        Word ''ELECTRIC'', Word ''WATER''])),
     (''Shopping'', re_search (Alts [Word ''AMZN'', Seq (Word ''AMAZON'') (Star Dot),
        Word ''TARGET'', Word ''WALMART'']))]"

definition DATE_FORMAT :: string where
  "DATE_FORMAT = ''%m/%d/%Y''"

definition EXPECTED_COLUMNS :: "string list" where
  "EXPECTED_COLUMNS = [''date'', ''description'', ''category'', ''transaction_type'', ''amount'']"

section \<open>\<open>transform.py\<close>: the two row functions\<close>

text \<open>
  \<open>str(description)\<close> is the text itself on text; on a number or a timestamp it is
  Python's rendering, which is taken as the parameter \<open>render\<close>.
\<close>

fun py_str :: "(cell \<Rightarrow> string) \<Rightarrow> cell \<Rightarrow> string" where
  "py_str render (Str s) = s"
| "py_str render c = render c"

text \<open>The \<open>for\<close> loop over \<open>CATEGORY_PATTERNS.items()\<close> with its fall-through \<open>return\<close>.\<close>

fun first_match :: "rules \<Rightarrow> string \<Rightarrow> string" where
  "first_match [] description = ''Other''"
| "first_match ((category, pattern) # rest) description =
     (if pattern description then category else first_match rest description)"

definition categorize_transaction :: "(cell \<Rightarrow> string) \<Rightarrow> rules \<Rightarrow> cell \<Rightarrow> string" where
  "categorize_transaction render rules description =
     (if isna description then ''Other''
      else first_match rules (py_str render description))"

text \<open>
  \<open>amount > 0\<close> on a text or a timestamp raises \<open>TypeError\<close>; the source has no
  handler for it.
\<close>

fun derive_transaction_type :: "cell \<Rightarrow> error + string" where
  "derive_transaction_type NaN = Inr ''Unknown''"
| "derive_transaction_type (Num amount) =
     (if amount > 0 then Inr ''Credit''
      else if amount < 0 then Inr ''Debit''
      else Inr ''Neutral'')"
| "derive_transaction_type (Str s) = Inl TypeError"
| "derive_transaction_type (Ts d) = Inl TypeError"

section \<open>DataFrames\<close>

text \<open>
  The column types that the quality checks tell apart: \<open>is_numeric_dtype\<close> holds of
  integer, float and boolean columns, \<open>is_datetime64_any_dtype\<close> of datetime columns.
\<close>

datatype dtype = Int64 | Float64 | Bool | Object | Datetime64

fun is_numeric_dtype :: "dtype \<Rightarrow> bool" where
  "is_numeric_dtype Int64 = True"
| "is_numeric_dtype Float64 = True"
| "is_numeric_dtype Bool = True"
| "is_numeric_dtype Object = False"
| "is_numeric_dtype Datetime64 = False"

fun is_datetime64_any_dtype :: "dtype \<Rightarrow> bool" where
  "is_datetime64_any_dtype Datetime64 = True"
| "is_datetime64_any_dtype t = False"

text \<open>
  A frame is its columns with their types, in order, and its rows, in order. A row lists
  the cell of each column under the column's name; a cell that a row does not list reads
  as missing, as pandas fills it. Column types are part of the frame: they are fixed when
  the file is loaded and survive the removal of rows.
\<close>

type_synonym row = "(string \<times> cell) list"

record dataframe =
  schema :: "(string \<times> dtype) list"
  rows :: "row list"

type_synonym series = "dtype \<times> cell list"

definition columns :: "dataframe \<Rightarrow> string list" where
  "columns df = map fst (schema df)"

definition df_empty :: "dataframe \<Rightarrow> bool" where
  "df_empty df = (columns df = [] \<or> rows df = [])"

definition cell_at :: "row \<Rightarrow> string \<Rightarrow> cell" where
  "cell_at r name = (case map_of r name of Some c \<Rightarrow> c | None \<Rightarrow> NaN)"

text \<open>\<open>df[name]\<close>, which raises \<open>KeyError\<close> on a name that is not a column.\<close>

definition get_column :: "dataframe \<Rightarrow> string \<Rightarrow> error + series" where
  "get_column df name =
     (case map_of (schema df) name of
        None \<Rightarrow> Inl (KeyError name)
      | Some t \<Rightarrow> Inr (t, map (\<lambda>r. cell_at r name) (rows df)))"

text \<open>
  \<open>df[name] = series\<close>: an existing column is overwritten in place, a new one is added
  last.
\<close>

definition set_column :: "dataframe \<Rightarrow> string \<Rightarrow> series \<Rightarrow> dataframe" where
  "set_column df name s =
     \<lparr>schema = AList.update name (fst s) (schema df),
      rows = map2 (\<lambda>r v. AList.update name v r) (rows df) (snd s)\<rparr>"

text \<open>\<open>Series.apply(f)\<close>: the first exception of \<open>f\<close> ends the call.\<close>

fun series_apply :: "(cell \<Rightarrow> error + 'a) \<Rightarrow> cell list \<Rightarrow> error + 'a list" where
  "series_apply f [] = Inr []"
| "series_apply f (c # cs) =
     (case f c of
        Inl e \<Rightarrow> Inl e
      | Inr v \<Rightarrow> (case series_apply f cs of Inl e \<Rightarrow> Inl e | Inr vs \<Rightarrow> Inr (v # vs)))"

text \<open>\<open>series.isna().sum()\<close>.\<close>

definition isna_sum :: "cell list \<Rightarrow> nat" where
  "isna_sum cs = length (filter isna cs)"

text \<open>
  \<open>df.drop_duplicates()\<close>: a row is dropped when an earlier row has the same value in
  every column; the first occurrence stays, and the order is kept. Missing cells compare
  equal.
\<close>

fun keep_first :: "'a list \<Rightarrow> 'a list \<Rightarrow> 'a list" where
  "keep_first seen [] = []"
| "keep_first seen (x # xs) =
     (if x \<in> set seen then keep_first seen xs else x # keep_first (x # seen) xs)"

definition drop_duplicates :: "dataframe \<Rightarrow> dataframe" where
  "drop_duplicates df = df\<lparr>rows := keep_first [] (rows df)\<rparr>"

text \<open>\<open>df.dropna(subset=[name])\<close>.\<close>

definition dropna :: "dataframe \<Rightarrow> string \<Rightarrow> dataframe" where
  "dropna df name = df\<lparr>rows := filter (\<lambda>r. \<not> isna (cell_at r name)) (rows df)\<rparr>"

text \<open>\<open>df[[name, ...]].copy()\<close>: the named columns in the order given.\<close>

fun select_schema :: "(string \<times> dtype) list \<Rightarrow> string list \<Rightarrow> error + (string \<times> dtype) list" where
  "select_schema sch [] = Inr []"
| "select_schema sch (name # names) =
     (case map_of sch name of
        None \<Rightarrow> Inl (KeyError name)
      | Some t \<Rightarrow>
          (case select_schema sch names of Inl e \<Rightarrow> Inl e | Inr ts \<Rightarrow> Inr ((name, t) # ts)))"

definition select_columns :: "dataframe \<Rightarrow> string list \<Rightarrow> error + dataframe" where
  "select_columns df names =
     (case select_schema (schema df) names of
        Inl e \<Rightarrow> Inl e
      | Inr sch \<Rightarrow>
          Inr \<lparr>schema = sch, rows = map (\<lambda>r. map (\<lambda>name. (name, cell_at r name)) names) (rows df)\<rparr>)"

text \<open>\<open>df.rename(columns=mapping, inplace=True)\<close>.\<close>

definition rename_key :: "(string \<times> string) list \<Rightarrow> string \<Rightarrow> string" where
  "rename_key mapping name = (case map_of mapping name of Some new \<Rightarrow> new | None \<Rightarrow> name)"

definition rename_columns :: "dataframe \<Rightarrow> (string \<times> string) list \<Rightarrow> dataframe" where
  "rename_columns df mapping =
     \<lparr>schema = map (\<lambda>(name, t). (rename_key mapping name, t)) (schema df),
      rows = map (map (\<lambda>(name, c). (rename_key mapping name, c))) (rows df)\<rparr>"

section \<open>Dates: \<open>pd.to_datetime(..., format=..., errors='coerce')\<close> and \<open>strftime\<close>\<close>

definition is_digit :: "char \<Rightarrow> bool" where
  "is_digit c = (48 \<le> (of_char c :: nat) \<and> (of_char c :: nat) \<le> 57)"

definition digit_val :: "char \<Rightarrow> nat" where
  "digit_val c = of_char c - 48"

definition digit_char :: "nat \<Rightarrow> char" where
  "digit_char n = ''0123456789'' ! (n mod 10)"

text \<open>
  The directives of \<open>DATE_FORMAT\<close>, with the alternatives in the order in which the
  parser tries them: each gives a value and the text that is left.
  \<open>%m\<close> is \<open>1[0-2]|0[1-9]|[1-9]\<close>, \<open>%d\<close> is
  \<open>3[01]|[12]\d|0[1-9]|[1-9]| [1-9]\<close>, \<open>%Y\<close> is four digits. Other directives do
  not occur in the configuration and are not modelled: they give no alternative.
\<close>

definition two_digits :: "string \<Rightarrow> (nat \<times> string) list" where
  "two_digits s =
     (case s of
        a # b # rest \<Rightarrow>
          (if is_digit a \<and> is_digit b then [(10 * digit_val a + digit_val b, rest)] else [])
      | _ \<Rightarrow> [])"

definition one_digit :: "string \<Rightarrow> (nat \<times> string) list" where
  "one_digit s =
     (case s of
        a # rest \<Rightarrow> (if is_digit a \<and> digit_val a \<noteq> 0 then [(digit_val a, rest)] else [])
      | _ \<Rightarrow> [])"

definition directive :: "char \<Rightarrow> string \<Rightarrow> (nat \<times> string) list" where
  "directive d s =
     (if d = CHR ''m'' then
        filter (\<lambda>(v, rest). 1 \<le> v \<and> v \<le> 12) (two_digits s) @ one_digit s
      else if d = CHR ''d'' then
        filter (\<lambda>(v, rest). 1 \<le> v \<and> v \<le> 31) (two_digits s) @ one_digit s
          @ (case s of a # rest \<Rightarrow> (if a = CHR '' '' then one_digit rest else []) | _ \<Rightarrow> [])
      else if d = CHR ''Y'' then
        (case s of
           a # b # c # e # rest \<Rightarrow>
             (if is_digit a \<and> is_digit b \<and> is_digit c \<and> is_digit e
              then [(1000 * digit_val a + 100 * digit_val b + 10 * digit_val c + digit_val e, rest)]
              else [])
         | _ \<Rightarrow> [])
      else [])"

fun first_success :: "('a \<Rightarrow> 'b option) \<Rightarrow> 'a list \<Rightarrow> 'b option" where
  "first_success f [] = None"
| "first_success f (x # xs) = (case f x of Some y \<Rightarrow> Some y | None \<Rightarrow> first_success f xs)"

text \<open>
  Matching a text against a format: the fields found, by directive, and the text left
  after the match.
\<close>

fun match_format :: "string \<Rightarrow> string \<Rightarrow> ((char \<times> nat) list \<times> string) option" where
  "match_format [] s = Some ([], s)"
| "match_format [f] s =
     (case s of [] \<Rightarrow> None | c # cs \<Rightarrow> (if f \<noteq> CHR ''%'' \<and> c = f then Some ([], cs) else None))"
| "match_format (f # d # fs) s =
     (if f = CHR ''%'' then
        first_success
          (\<lambda>(v, rest). map_option (\<lambda>(found, left). ((d, v) # found, left)) (match_format fs rest))
          (directive d s)
      else
        (case s of
           [] \<Rightarrow> None
         | c # cs \<Rightarrow> (if c = f then match_format (d # fs) cs else None)))"

definition is_leap :: "nat \<Rightarrow> bool" where
  "is_leap y = (y mod 4 = 0 \<and> (y mod 100 \<noteq> 0 \<or> y mod 400 = 0))"

definition days_in_month :: "nat \<Rightarrow> nat \<Rightarrow> nat" where
  "days_in_month y m =
     (if m = 2 then (if is_leap y then 29 else 28)
      else if m \<in> {4, 6, 9, 11} then 30 else 31)"

text \<open>
  \<open>strptime\<close>: the whole text must be consumed, and the fields must be a date of the
  calendar. A field that the format does not set is 1 (1900 for the year). The bounds of
  the nanosecond representation are not modelled.
\<close>

definition field :: "(char \<times> nat) list \<Rightarrow> char \<Rightarrow> nat \<Rightarrow> nat" where
  "field found d dflt = (case map_of found d of Some v \<Rightarrow> v | None \<Rightarrow> dflt)"

definition strptime :: "string \<Rightarrow> string \<Rightarrow> date option" where
  "strptime fmt s =
     (case match_format fmt s of
        None \<Rightarrow> None
      | Some (found, left) \<Rightarrow>
          (let y = field found (CHR ''Y'') 1900;
               m = field found (CHR ''m'') 1;
               d = field found (CHR ''d'') 1
           in if left = [] \<and> 1 \<le> y \<and> 1 \<le> m \<and> m \<le> 12 \<and> 1 \<le> d \<and> d \<le> days_in_month y m
              then Some (Date y m d) else None))"

text \<open>
  One value of \<open>pd.to_datetime(series, format=fmt, errors='coerce')\<close>: a missing value
  stays missing, a timestamp stays, anything else is parsed from its text; what does not
  parse becomes \<open>NaT\<close>.
\<close>

fun to_datetime :: "(cell \<Rightarrow> string) \<Rightarrow> string \<Rightarrow> cell \<Rightarrow> cell" where
  "to_datetime render fmt NaN = NaN"
| "to_datetime render fmt (Ts d) = Ts d"
| "to_datetime render fmt c =
     (case strptime fmt (py_str render c) of Some d \<Rightarrow> Ts d | None \<Rightarrow> NaN)"

text \<open>\<open>strftime('%Y-%m')\<close> on one value of a datetime column.\<close>

definition strftime_Y_m :: "date \<Rightarrow> string" where
  "strftime_Y_m d =
     [digit_char (year d div 1000), digit_char (year d div 100), digit_char (year d div 10),
      digit_char (year d), CHR ''-'', digit_char (month d div 10), digit_char (month d)]"

fun dt_strftime_cell :: "cell \<Rightarrow> cell" where
  "dt_strftime_cell (Ts d) = Str (strftime_Y_m d)"
| "dt_strftime_cell c = NaN"

section \<open>\<open>transform.py\<close>: validation and the pipeline\<close>

definition validate_raw_data :: "dataframe \<Rightarrow> error + unit" where
  "validate_raw_data df =
     (let missing_cols = set EXPECTED_COLUMNS - set (columns df) in
      if missing_cols \<noteq> {} then Inl (ValueError (Missing_required_columns missing_cols))
      else if df_empty df then Inl (ValueError DataFrame_is_empty)
      else Inr ())"

text \<open>The loop over \<open>checks.items()\<close>: the first check that did not pass is raised.\<close>

fun first_failed :: "(string \<times> bool) list \<Rightarrow> error + bool" where
  "first_failed [] = Inr True"
| "first_failed ((check, passed) # rest) =
     (if \<not> passed then Inl (ValueError (Validation_failed check)) else first_failed rest)"

text \<open>
  The dictionary \<open>checks\<close> is built before the loop, so the four column lookups come
  first, in the order of the dictionary's entries.
\<close>

definition validate_clean_data :: "dataframe \<Rightarrow> error + bool" where
  "validate_clean_data df =
     (case get_column df ''transaction_date'' of Inl e \<Rightarrow> Inl e | Inr transaction_date \<Rightarrow>
      case get_column df ''amount'' of Inl e \<Rightarrow> Inl e | Inr amount \<Rightarrow>
      case get_column df ''category'' of Inl e \<Rightarrow> Inl e | Inr category \<Rightarrow>
      case get_column df ''transaction_type'' of Inl e \<Rightarrow> Inl e | Inr transaction_type \<Rightarrow>
      first_failed
        [(''No nulls in date'', isna_sum (snd transaction_date) = 0),
         (''No nulls in amount'', isna_sum (snd amount) = 0),
         (''Date is datetime'', is_datetime64_any_dtype (fst transaction_date)),
         (''Amount is numeric'', is_numeric_dtype (fst amount)),
         (''All categories assigned'', isna_sum (snd category) = 0),
         (''All transaction types assigned'', isna_sum (snd transaction_type) = 0)])"

text \<open>
  What the pipeline prints about the rows it removed: the number of duplicates and the
  number of invalid dates.
\<close>

record report =
  duplicates_removed :: nat
  invalid_dates :: nat

text \<open>Step 3 of the pipeline: the column \<open>category_corrected\<close>.\<close>

definition categorize_step :: "(cell \<Rightarrow> string) \<Rightarrow> rules \<Rightarrow> dataframe \<Rightarrow> error + dataframe" where
  "categorize_step render rules df =
     (case get_column df ''description'' of
        Inl e \<Rightarrow> Inl e
      | Inr description \<Rightarrow>
          Inr (set_column df ''category_corrected''
                (Object, map (\<lambda>d. Str (categorize_transaction render rules d)) (snd description))))"

text \<open>Step 4: the column \<open>derived_transaction_type\<close>.\<close>

definition derive_step :: "dataframe \<Rightarrow> error + dataframe" where
  "derive_step df =
     (case get_column df ''amount'' of
        Inl e \<Rightarrow> Inl e
      | Inr amount \<Rightarrow>
          (case series_apply derive_transaction_type (snd amount) of
             Inl e \<Rightarrow> Inl e
           | Inr types \<Rightarrow> Inr (set_column df ''derived_transaction_type'' (Object, map Str types))))"

text \<open>Step 5: the column \<open>date_dt\<close>, the count of invalid dates and the removal of their rows.\<close>

definition parse_dates_step :: "(cell \<Rightarrow> string) \<Rightarrow> string \<Rightarrow> dataframe \<Rightarrow> error + dataframe \<times> nat" where
  "parse_dates_step render fmt df =
     (case get_column df ''date'' of
        Inl e \<Rightarrow> Inl e
      | Inr date_col \<Rightarrow>
          (let df' = set_column df ''date_dt'' (Datetime64, map (to_datetime render fmt) (snd date_col))
           in case get_column df' ''date_dt'' of
                Inl e \<Rightarrow> Inl e
              | Inr date_dt \<Rightarrow>
                  (let invalid = isna_sum (snd date_dt)
                   in Inr (if invalid > 0 then dropna df' ''date_dt'' else df', invalid))))"

text \<open>Step 6: the final columns, \<open>month_year\<close>, and the names of the database.\<close>

definition shape_step :: "dataframe \<Rightarrow> error + dataframe" where
  "shape_step df =
     (case select_columns df
             [''date_dt'', ''description'', ''category_corrected'', ''derived_transaction_type'',
              ''amount''] of
        Inl e \<Rightarrow> Inl e
      | Inr clean_df \<Rightarrow>
          (case get_column clean_df ''date_dt'' of
             Inl e \<Rightarrow> Inl e
           | Inr date_dt \<Rightarrow>
               Inr (rename_columns
                     (set_column clean_df ''month_year'' (Object, map dt_strftime_cell (snd date_dt)))
                     [(''date_dt'', ''transaction_date''), (''category_corrected'', ''category''),
                      (''derived_transaction_type'', ''transaction_type''),
                      (''description'', ''transaction_desc'')])))"

definition clean_transaction_data ::
    "(cell \<Rightarrow> string) \<Rightarrow> rules \<Rightarrow> string \<Rightarrow> dataframe \<Rightarrow> error + dataframe \<times> report" where
  "clean_transaction_data render rules fmt df =
     (case validate_raw_data df of Inl e \<Rightarrow> Inl e | Inr u \<Rightarrow>
      let initial_rows = length (rows df);
          dedup = drop_duplicates df;
          removed = initial_rows - length (rows dedup)
      in
      case categorize_step render rules dedup of Inl e \<Rightarrow> Inl e | Inr categorized \<Rightarrow>
      case derive_step categorized of Inl e \<Rightarrow> Inl e | Inr typed \<Rightarrow>
      case parse_dates_step render fmt typed of Inl e \<Rightarrow> Inl e | Inr (dated, invalid) \<Rightarrow>
      case shape_step dated of Inl e \<Rightarrow> Inl e | Inr clean_df \<Rightarrow>
      case validate_clean_data clean_df of Inl e \<Rightarrow> Inl e | Inr ok \<Rightarrow>
      Inr (clean_df, \<lparr>duplicates_removed = removed, invalid_dates = invalid\<rparr>))"

section \<open>The cleaned record, as specified\<close>

text \<open>
  The cells of a numeric column: a number or a missing value. On exactly these the
  comparison with zero is defined.
\<close>

fun numeric_or_missing :: "cell \<Rightarrow> bool" where
  "numeric_or_missing NaN = True"
| "numeric_or_missing (Num x) = True"
| "numeric_or_missing c = False"

text \<open>
  The direction of a transaction in the words of the specification: present and
  positive is \<open>Credit\<close>, negative \<open>Debit\<close>, zero \<open>Neutral\<close>, anything else
  \<open>Unknown\<close>.
\<close>

fun transaction_type_label :: "cell \<Rightarrow> string" where
  "transaction_type_label (Num amount) =
     (if amount > 0 then ''Credit'' else if amount < 0 then ''Debit'' else ''Neutral'')"
| "transaction_type_label c = ''Unknown''"

text \<open>A row whose date parses against the format: the rows that step 5 keeps.\<close>

definition parseable :: "(cell \<Rightarrow> string) \<Rightarrow> string \<Rightarrow> row \<Rightarrow> bool" where
  "parseable render fmt r = (\<not> isna (to_datetime render fmt (cell_at r ''date'')))"

text \<open>
  The record of the specification for one raw row: the normalized date, the description,
  the category, the transaction type, the amount, and the year and month of the date.
\<close>

definition clean_record :: "(cell \<Rightarrow> string) \<Rightarrow> rules \<Rightarrow> string \<Rightarrow> row \<Rightarrow> row" where
  "clean_record render rules fmt r =
     [(''transaction_date'', to_datetime render fmt (cell_at r ''date'')),
      (''transaction_desc'', cell_at r ''description''),
      (''category'', Str (categorize_transaction render rules (cell_at r ''description''))),
      (''transaction_type'', Str (transaction_type_label (cell_at r ''amount''))),
      (''amount'', cell_at r ''amount''),
      (''month_year'', dt_strftime_cell (to_datetime render fmt (cell_at r ''date'')))]"

text \<open>The columns of the cleaned frame; two of the types come from the input.\<close>

definition clean_schema :: "dtype \<Rightarrow> dtype \<Rightarrow> (string \<times> dtype) list" where
  "clean_schema description_type amount_type =
     [(''transaction_date'', Datetime64), (''transaction_desc'', description_type),
      (''category'', Object), (''transaction_type'', Object), (''amount'', amount_type),
      (''month_year'', Object)]"

section \<open>Columns as loaded\<close>



section \<open>Scenarios\<close>

text \<open>
  A batch as loaded from a file that has the five required columns, with empty
  \<open>category\<close> and \<open>transaction_type\<close> columns, which the pipeline ignores.
\<close>

definition raw_schema :: "(string \<times> dtype) list" where
  "raw_schema =
     [(''date'', Object), (''description'', Object), (''category'', Float64),
      (''transaction_type'', Float64), (''amount'', Float64)]"

definition raw_row :: "cell \<Rightarrow> cell \<Rightarrow> cell \<Rightarrow> row" where
  "raw_row d s a =
     [(''date'', d), (''description'', s), (''category'', NaN), (''transaction_type'', NaN),
      (''amount'', a)]"

definition scenario_A :: dataframe where
  "scenario_A =
     \<lparr>schema = raw_schema,
      rows = [raw_row (Str ''01/05/2024'') (Str ''STARBUCKS #123'') (Num (- 4.5))]\<rparr>"



definition scenario_D :: dataframe where
  "scenario_D =
     \<lparr>schema = raw_schema,
      rows = [raw_row (Str ''01/05/2024'') (Str ''STARBUCKS #123'') (Num (- 4.5)),
              raw_row (Str ''01/05/2024'') (Str ''STARBUCKS #123'') (Num (- 4.5))]\<rparr>"




text \<open>Two cleaned frames: one that meets every quality check, one that fails three.\<close>

definition clean_example :: dataframe where
  "clean_example =
     \<lparr>schema = clean_schema Object Float64,
      rows = [[(''transaction_date'', Ts (Date 2024 1 5)),
               (''transaction_desc'', Str ''STARBUCKS #123''),
               (''category'', Str ''Food & Dining''), (''transaction_type'', Str ''Debit''),
               (''amount'', Num (- 4.5)), (''month_year'', Str ''2024-01'')]]\<rparr>"

definition broken_example :: dataframe where
  "broken_example =
     \<lparr>schema = clean_schema Object Object,
      rows = [[(''transaction_date'', Ts (Date 2024 1 5)),
               (''transaction_desc'', Str ''STARBUCKS #123''),
               (''category'', NaN), (''transaction_type'', Str ''Unknown''),
               (''amount'', NaN), (''month_year'', Str ''2024-01'')]]\<rparr>"

section \<open>\<open>watch.py\<close>: routing one file\<close>

text \<open>
  The files of the three folders: a path has a content or does not exist. Directories
  are not modelled: \<open>os.makedirs(..., exist_ok=True)\<close> is taken to succeed. An exception
  that reaches the handler of \<open>process_file\<close> is used through \<open>str(e)\<close> only, so
  it is its message.
\<close>

type_synonym fs = "string \<Rightarrow> string option"




text \<open>\<open>datetime.now()\<close> and \<open>strftime('%Y%m%d_%H%M%S')\<close>.\<close>

record moment =
  on_date :: date
  hour :: nat
  minute :: nat
  second :: nat























section \<open>Properties of the categorization engine\<close>

lemma first_match_label:
  "first_match rules t \<in> fst ` set rules \<union> {''Other''}"
  by (induction rules t rule: first_match.induct) auto

lemma first_match_none:
  "\<forall>r \<in> set rules. \<not> snd r t \<Longrightarrow> first_match rules t = ''Other''"
  by (induction rules t rule: first_match.induct) auto

lemma first_match_first:
  "i < length rules \<Longrightarrow> snd (rules ! i) t \<Longrightarrow> (\<And>j. j < i \<Longrightarrow> \<not> snd (rules ! j) t)
    \<Longrightarrow> first_match rules t = fst (rules ! i)"
proof (induction rules t arbitrary: i rule: first_match.induct)
  case (1 description)
  then show ?case by simp
next
  case (2 category pattern rest description)
  show ?case
  proof (cases i)
    case 0
    with 2 show ?thesis by simp
  next
    case (Suc k)
    have head: "\<not> pattern description"
      using "2.prems"(3) [of 0] Suc by simp
    have later: "\<And>j. j < k \<Longrightarrow> \<not> snd (rest ! j) description"
      using "2.prems"(3) Suc by (metis Suc_less_eq nth_Cons_Suc)
    have "first_match rest description = fst (rest ! k)"
      using "2.IH" [of k] head "2.prems"(1,2) Suc later by simp
    with head Suc show ?thesis by simp
  qed
qed

text \<open>
  C1 (as amended). For every rule set and every description the result is one label, a
  label of the rule set or \<open>Other\<close>; equal inputs give equal labels; an absent
  description gives \<open>Other\<close>; an empty description gives \<open>Other\<close> whenever no
  pattern of the rule set matches the empty string, which holds for the configured rules.
  The source has no test for the empty string: the rules are evaluated on it.
\<close>

theorem categorize_transaction_total:
  "categorize_transaction render rules description \<in> fst ` set rules \<union> {''Other''}
   \<and> (description = description' \<longrightarrow>
        categorize_transaction render rules description
          = categorize_transaction render rules description')
   \<and> categorize_transaction render rules NaN = ''Other''
   \<and> ((\<forall>r \<in> set rules. \<not> snd r '''') \<longrightarrow>
        categorize_transaction render rules (Str '''') = ''Other'')
   \<and> categorize_transaction render CATEGORY_PATTERNS (Str '''') = ''Other''"
proof -
  have label: "categorize_transaction render rules description \<in> fst ` set rules \<union> {''Other''}"
    using first_match_label [of rules "py_str render description"]
    by (simp add: categorize_transaction_def)
  have empty: "(\<forall>r \<in> set rules. \<not> snd r '''') \<longrightarrow>
      categorize_transaction render rules (Str '''') = ''Other''"
    using first_match_none [of rules "''''"] by (simp add: categorize_transaction_def)
  have configured: "categorize_transaction render CATEGORY_PATTERNS (Str '''') = ''Other''"
    by (simp add: categorize_transaction_def CATEGORY_PATTERNS_def)
  show ?thesis
    using label empty configured by (simp add: categorize_transaction_def)
qed

theorem categorize_transaction_total_witness:
  "categorize_transaction (\<lambda>c. '''') CATEGORY_PATTERNS (Str ''NETFLIX.COM'')
      \<in> fst ` set CATEGORY_PATTERNS \<union> {''Other''}
   \<and> categorize_transaction (\<lambda>c. '''') CATEGORY_PATTERNS (Str ''NETFLIX.COM'') = ''Entertainment''
   \<and> categorize_transaction (\<lambda>c. '''') CATEGORY_PATTERNS NaN = ''Other''
   \<and> categorize_transaction (\<lambda>c. '''') [(''Income'', re_search (Word ''SALARY''))] (Str '''')
        = ''Other''"
proof -
  have no_empty: "\<forall>r \<in> set [(''Income'', re_search (Word ''SALARY''))]. \<not> snd r ''''"
    by simp
  have val: "categorize_transaction (\<lambda>c. '''') CATEGORY_PATTERNS (Str ''NETFLIX.COM'')
      = ''Entertainment''"
    by (simp add: categorize_transaction_def CATEGORY_PATTERNS_def upper_def is_space_def)
  have a: "categorize_transaction (\<lambda>c. '''') CATEGORY_PATTERNS (Str ''NETFLIX.COM'')
      \<in> fst ` set CATEGORY_PATTERNS \<union> {''Other''}"
    using categorize_transaction_total
      [of "\<lambda>c. ''''" CATEGORY_PATTERNS "Str ''NETFLIX.COM''" "Str ''NETFLIX.COM''"]
    by blast
  have b: "categorize_transaction (\<lambda>c. '''') CATEGORY_PATTERNS NaN = ''Other''"
    using categorize_transaction_total [of "\<lambda>c. ''''" CATEGORY_PATTERNS NaN NaN]
    by blast
  have c: "categorize_transaction (\<lambda>c. '''') [(''Income'', re_search (Word ''SALARY''))] (Str '''')
      = ''Other''"
    using categorize_transaction_total
      [of "\<lambda>c. ''''" "[(''Income'', re_search (Word ''SALARY''))]" NaN NaN] no_empty
    by blast
  show ?thesis using a b c val by blast
qed

text \<open>
  C1 as stated fails: with the single rule \<open>('Any', re.compile('.*'))\<close> the empty
  description is matched and labelled \<open>Any\<close>, not \<open>Other\<close>.
\<close>

theorem categorize_transaction_empty_counterexample:
  "categorize_transaction (\<lambda>c. '''') [(''Any'', re_search (Star Dot))] (Str '''') = ''Any''
   \<and> categorize_transaction (\<lambda>c. '''') [(''Any'', re_search (Star Dot))] (Str '''') \<noteq> ''Other''"
  by (simp add: categorize_transaction_def)

text \<open>
  C2. When the patterns of several rules match a description, the label is that of the
  rule declared first: for every position \<open>i\<close> of the rule list whose pattern matches
  while no earlier pattern does, the result is the label at \<open>i\<close>, whatever the later
  rules are.
\<close>

theorem categorize_transaction_first_match_wins:
  assumes "\<not> isna description"
    and "i < length rules"
    and "snd (rules ! i) (py_str render description)"
    and "\<forall>j < i. \<not> snd (rules ! j) (py_str render description)"
  shows "categorize_transaction render rules description = fst (rules ! i)"
  using assms first_match_first [of i rules "py_str render description"]
  by (simp add: categorize_transaction_def)

theorem categorize_transaction_first_match_wins_witness:
  "snd (CATEGORY_PATTERNS ! 1) ''UBER EATS RESTAURANT''
   \<and> snd (CATEGORY_PATTERNS ! 3) ''UBER EATS RESTAURANT''
   \<and> categorize_transaction (\<lambda>c. '''') CATEGORY_PATTERNS (Str ''UBER EATS RESTAURANT'')
        = ''Food & Dining''"
proof -
  have first: "snd (CATEGORY_PATTERNS ! 1) (py_str (\<lambda>c. '''') (Str ''UBER EATS RESTAURANT''))"
    by (simp add: CATEGORY_PATTERNS_def upper_def is_space_def)
  have second: "snd (CATEGORY_PATTERNS ! 3) ''UBER EATS RESTAURANT''"
    by (simp add: CATEGORY_PATTERNS_def upper_def is_space_def)
  have earlier: "\<forall>j < 1. \<not> snd (CATEGORY_PATTERNS ! j) (py_str (\<lambda>c. '''') (Str ''UBER EATS RESTAURANT''))"
    by (simp add: CATEGORY_PATTERNS_def upper_def is_space_def)
  have len: "1 < length CATEGORY_PATTERNS"
    by (simp add: CATEGORY_PATTERNS_def)
  have "categorize_transaction (\<lambda>c. '''') CATEGORY_PATTERNS (Str ''UBER EATS RESTAURANT'')
      = fst (CATEGORY_PATTERNS ! 1)"
    using categorize_transaction_first_match_wins
      [of "Str ''UBER EATS RESTAURANT''" 1 CATEGORY_PATTERNS "\<lambda>c. ''''"] len first earlier
    by simp
  moreover have "fst (CATEGORY_PATTERNS ! 1) = ''Food & Dining''"
    by (simp add: CATEGORY_PATTERNS_def)
  ultimately show ?thesis using first second by simp
qed

section \<open>Properties of the type derivation\<close>

text \<open>
  C3 (as amended). On an absent amount the result is \<open>Unknown\<close>; on a number it is
  \<open>Credit\<close>, \<open>Debit\<close> or \<open>Neutral\<close> by its sign; these four labels are exactly the
  values returned. On a text amount, which is what a column with an unparseable amount
  holds after loading, the comparison with zero raises \<open>TypeError\<close>.
\<close>

theorem derive_transaction_type_cases:
  "derive_transaction_type NaN = Inr ''Unknown''
   \<and> (amount > 0 \<longrightarrow> derive_transaction_type (Num amount) = Inr ''Credit'')
   \<and> (amount < 0 \<longrightarrow> derive_transaction_type (Num amount) = Inr ''Debit'')
   \<and> (amount = 0 \<longrightarrow> derive_transaction_type (Num amount) = Inr ''Neutral'')
   \<and> {l. \<exists>a. derive_transaction_type a = Inr l} = {''Credit'', ''Debit'', ''Neutral'', ''Unknown''}
   \<and> derive_transaction_type (Str s) = Inl TypeError"
proof -
  have range: "{l. \<exists>a. derive_transaction_type a = Inr l}
      = {''Credit'', ''Debit'', ''Neutral'', ''Unknown''}" (is "?L = ?R")
  proof
    show "?L \<subseteq> ?R"
    proof
      fix l assume "l \<in> ?L"
      then obtain a where a: "derive_transaction_type a = Inr l" by blast
      then show "l \<in> ?R"
        by (cases a) (auto split: if_splits)
    qed
    have "derive_transaction_type (Num 1) = Inr ''Credit''"
      "derive_transaction_type (Num (- 1)) = Inr ''Debit''"
      "derive_transaction_type (Num 0) = Inr ''Neutral''"
      "derive_transaction_type NaN = Inr ''Unknown''"
      by simp_all
    then show "?R \<subseteq> ?L" by blast
  qed
  then show ?thesis by simp
qed

theorem derive_transaction_type_cases_witness:
  "derive_transaction_type (Num 1250) = Inr ''Credit''
   \<and> derive_transaction_type (Num (- 4.5)) = Inr ''Debit''
   \<and> derive_transaction_type (Num 0) = Inr ''Neutral''
   \<and> derive_transaction_type NaN = Inr ''Unknown''"
  using derive_transaction_type_cases [of 1250] derive_transaction_type_cases [of "- 4.5"]
    derive_transaction_type_cases [of 0]
  by simp

text \<open>
  C3 as stated fails: \<open>derive_transaction_type("abc")\<close> does not return \<open>Unknown\<close>;
  \<open>pd.isna("abc")\<close> is false and \<open>"abc" > 0\<close> raises.
\<close>

theorem derive_transaction_type_text_counterexample:
  "derive_transaction_type (Str ''abc'') = Inl TypeError
   \<and> derive_transaction_type (Str ''abc'') \<noteq> Inr ''Unknown''"
  by simp

section \<open>The steps of the pipeline\<close>

lemma cell_at_update:
  "cell_at (AList.update k v r) k' = (if k' = k then v else cell_at r k')"
  by (simp add: cell_at_def update_conv')

lemma map_of_update:
  "map_of (AList.update k v al) k' = (if k' = k then Some v else map_of al k')"
  by (simp add: update_conv')

lemma map2_same: "map2 f xs (map g xs) = map (\<lambda>x. f x (g x)) xs"
  by (induction xs) simp_all

lemma get_column_Some:
  "map_of (schema df) name = Some t \<Longrightarrow> get_column df name = Inr (t, map (\<lambda>r. cell_at r name) (rows df))"
  by (simp add: get_column_def)

lemma set_column_map:
  "set_column df name (t, map g (rows df))
     = \<lparr>schema = AList.update name t (schema df),
        rows = map (\<lambda>r. AList.update name (g r) r) (rows df)\<rparr>"
  by (simp add: set_column_def map2_same)

lemma categorize_step_eq:
  "map_of (schema df) ''description'' = Some t \<Longrightarrow>
   categorize_step render rules df =
     Inr \<lparr>schema = AList.update ''category_corrected'' Object (schema df),
          rows = map (\<lambda>r. AList.update ''category_corrected''
                    (Str (categorize_transaction render rules (cell_at r ''description''))) r) (rows df)\<rparr>"
  using set_column_map [of df "''category_corrected''" Object
      "\<lambda>r. Str (categorize_transaction render rules (cell_at r ''description''))"]
  by (simp add: categorize_step_def get_column_Some comp_def)

lemma derive_label:
  "numeric_or_missing c \<Longrightarrow> derive_transaction_type c = Inr (transaction_type_label c)"
  by (cases c) simp_all

lemma derive_text:
  "\<not> numeric_or_missing c \<Longrightarrow> derive_transaction_type c = Inl TypeError"
  by (cases c) simp_all

lemma series_apply_ok:
  "\<forall>c \<in> set cs. numeric_or_missing c \<Longrightarrow>
   series_apply derive_transaction_type cs = Inr (map transaction_type_label cs)"
  by (induction cs) (simp_all add: derive_label)

lemma series_apply_text:
  "\<exists>c \<in> set cs. \<not> numeric_or_missing c \<Longrightarrow>
   series_apply derive_transaction_type cs = Inl TypeError"
proof (induction cs)
  case Nil
  then show ?case by simp
next
  case (Cons c cs)
  show ?case
  proof (cases "numeric_or_missing c")
    case True
    with Cons show ?thesis by (simp add: derive_label)
  next
    case False
    then show ?thesis by (simp add: derive_text)
  qed
qed

lemma derive_step_eq:
  assumes "map_of (schema df) ''amount'' = Some t"
    and "\<forall>r \<in> set (rows df). numeric_or_missing (cell_at r ''amount'')"
  shows "derive_step df =
     Inr \<lparr>schema = AList.update ''derived_transaction_type'' Object (schema df),
          rows = map (\<lambda>r. AList.update ''derived_transaction_type''
                    (Str (transaction_type_label (cell_at r ''amount''))) r) (rows df)\<rparr>"
proof -
  have "series_apply derive_transaction_type (map (\<lambda>r. cell_at r ''amount'') (rows df))
      = Inr (map transaction_type_label (map (\<lambda>r. cell_at r ''amount'') (rows df)))"
    using assms(2) by (intro series_apply_ok) simp
  then show ?thesis
    using assms(1) set_column_map [of df "''derived_transaction_type''" Object
      "\<lambda>r. Str (transaction_type_label (cell_at r ''amount''))"]
    by (simp add: derive_step_def get_column_Some comp_def)
qed

lemma derive_step_text:
  assumes "map_of (schema df) ''amount'' = Some t"
    and "\<exists>r \<in> set (rows df). \<not> numeric_or_missing (cell_at r ''amount'')"
  shows "derive_step df = Inl TypeError"
proof -
  have "series_apply derive_transaction_type (map (\<lambda>r. cell_at r ''amount'') (rows df))
      = Inl TypeError"
    using assms(2) by (intro series_apply_text) simp
  then show ?thesis
    using assms(1) by (simp add: derive_step_def get_column_Some)
qed

lemma isna_sum_pos: "(0 < isna_sum cs) = (\<exists>c \<in> set cs. isna c)"
  by (simp add: isna_sum_def filter_empty_conv)

lemma filter_all: "\<forall>x \<in> set xs. P x \<Longrightarrow> filter P xs = xs"
  by (induction xs) simp_all

lemma parse_dates_step_eq:
  assumes "map_of (schema df) ''date'' = Some t"
  shows "parse_dates_step render fmt df =
     Inr (\<lparr>schema = AList.update ''date_dt'' Datetime64 (schema df),
           rows = map (\<lambda>r. AList.update ''date_dt'' (to_datetime render fmt (cell_at r ''date'')) r)
                    (filter (\<lambda>r. \<not> isna (to_datetime render fmt (cell_at r ''date''))) (rows df))\<rparr>,
          length (filter (\<lambda>r. isna (to_datetime render fmt (cell_at r ''date''))) (rows df)))"
proof -
  let ?g = "\<lambda>r. to_datetime render fmt (cell_at r ''date'')"
  let ?df' = "\<lparr>schema = AList.update ''date_dt'' Datetime64 (schema df),
        rows = map (\<lambda>r. AList.update ''date_dt'' (?g r) r) (rows df)\<rparr>"
  have set: "set_column df ''date_dt'' (Datetime64, map (to_datetime render fmt) (map (\<lambda>r. cell_at r ''date'') (rows df))) = ?df'"
    using set_column_map [of df "''date_dt''" Datetime64 ?g] by (simp add: comp_def)
  have col: "get_column ?df' ''date_dt'' = Inr (Datetime64, map ?g (rows df))"
    by (simp add: get_column_def map_of_update cell_at_update comp_def)
  have cnt: "isna_sum (map ?g (rows df)) = length (filter (\<lambda>r. isna (?g r)) (rows df))"
    by (simp add: isna_sum_def filter_map comp_def)
  have drop: "rows (dropna ?df' ''date_dt'') = map (\<lambda>r. AList.update ''date_dt'' (?g r) r)
                    (filter (\<lambda>r. \<not> isna (?g r)) (rows df))"
    by (simp add: dropna_def filter_map comp_def cell_at_update)
  have drop': "dropna ?df' ''date_dt'' = \<lparr>schema = AList.update ''date_dt'' Datetime64 (schema df),
           rows = map (\<lambda>r. AList.update ''date_dt'' (?g r) r)
                    (filter (\<lambda>r. \<not> isna (?g r)) (rows df))\<rparr>"
    using drop by (simp add: dropna_def)
  have same: "length (filter (\<lambda>r. isna (?g r)) (rows df)) = 0 \<Longrightarrow>
      filter (\<lambda>r. \<not> isna (?g r)) (rows df) = rows df"
    by (intro filter_all) (simp add: filter_empty_conv)
  show ?thesis
    using assms set col cnt drop' same
    by (cases "length (filter (\<lambda>r. isna (?g r)) (rows df)) = 0")
       (simp_all add: parse_dates_step_def get_column_Some Let_def)
qed

lemma shape_step_eq:
  assumes "map_of (schema df) ''date_dt'' = Some t1"
    and "map_of (schema df) ''description'' = Some t2"
    and "map_of (schema df) ''category_corrected'' = Some t3"
    and "map_of (schema df) ''derived_transaction_type'' = Some t4"
    and "map_of (schema df) ''amount'' = Some t5"
  shows "shape_step df =
     Inr \<lparr>schema = [(''transaction_date'', t1), (''transaction_desc'', t2), (''category'', t3),
                    (''transaction_type'', t4), (''amount'', t5), (''month_year'', Object)],
          rows = map (\<lambda>r. [(''transaction_date'', cell_at r ''date_dt''),
                           (''transaction_desc'', cell_at r ''description''),
                           (''category'', cell_at r ''category_corrected''),
                           (''transaction_type'', cell_at r ''derived_transaction_type''),
                           (''amount'', cell_at r ''amount''),
                           (''month_year'', dt_strftime_cell (cell_at r ''date_dt''))]) (rows df)\<rparr>"
proof -
  let ?names = "[''date_dt'', ''description'', ''category_corrected'', ''derived_transaction_type'', ''amount'']"
  let ?sel = "\<lparr>schema = [(''date_dt'', t1), (''description'', t2), (''category_corrected'', t3),
                    (''derived_transaction_type'', t4), (''amount'', t5)],
          rows = map (\<lambda>r. [(''date_dt'', cell_at r ''date_dt''),
                           (''description'', cell_at r ''description''),
                           (''category_corrected'', cell_at r ''category_corrected''),
                           (''derived_transaction_type'', cell_at r ''derived_transaction_type''),
                           (''amount'', cell_at r ''amount'')]) (rows df)\<rparr>"
  have sel: "select_columns df ?names = Inr ?sel"
    using assms by (simp add: select_columns_def)
  have col: "get_column ?sel ''date_dt'' = Inr (t1, map (\<lambda>r. cell_at r ''date_dt'') (rows df))"
    by (simp add: get_column_def cell_at_def comp_def)
  have set: "set_column ?sel ''month_year'' (Object, map (\<lambda>r. dt_strftime_cell (cell_at r ''date_dt'')) (rows df))
      = \<lparr>schema = [(''date_dt'', t1), (''description'', t2), (''category_corrected'', t3),
                    (''derived_transaction_type'', t4), (''amount'', t5), (''month_year'', Object)],
          rows = map (\<lambda>r. [(''date_dt'', cell_at r ''date_dt''),
                           (''description'', cell_at r ''description''),
                           (''category_corrected'', cell_at r ''category_corrected''),
                           (''derived_transaction_type'', cell_at r ''derived_transaction_type''),
                           (''amount'', cell_at r ''amount''),
                           (''month_year'', dt_strftime_cell (cell_at r ''date_dt''))]) (rows df)\<rparr>"
    by (simp add: set_column_def zip_map_map zip_same_conv_map comp_def)
  show ?thesis
    unfolding shape_step_def sel
    by (simp add: col set rename_columns_def rename_key_def comp_def)
qed

lemma first_failed_all: "\<forall>c \<in> set checks. snd c \<Longrightarrow> first_failed checks = Inr True"
  by (induction checks rule: first_failed.induct) auto

lemma validate_raw_data_ok:
  "(validate_raw_data df = Inr ()) =
    (set EXPECTED_COLUMNS \<subseteq> set (columns df) \<and> rows df \<noteq> [])"
  by (auto simp add: validate_raw_data_def df_empty_def Let_def EXPECTED_COLUMNS_def)

lemma column_type:
  "name \<in> set (columns df) \<Longrightarrow> \<exists>t. map_of (schema df) name = Some t"
  by (cases "map_of (schema df) name") (auto simp add: columns_def map_of_eq_None_iff)

lemma set_keep_first: "set (keep_first seen xs) = set xs - set seen"
  by (induction xs arbitrary: seen) auto

lemma pipeline_steps:
  assumes raw: "validate_raw_data df = Inr ()"
    and amounts: "\<forall>r \<in> set (rows df). numeric_or_missing (cell_at r ''amount'')"
    and t2: "map_of (schema df) ''description'' = Some t2"
    and t5: "map_of (schema df) ''amount'' = Some t5"
  shows "clean_transaction_data render rules fmt df =
    (case validate_clean_data
            \<lparr>schema = clean_schema t2 t5,
             rows = map (clean_record render rules fmt)
                      (filter (parseable render fmt) (keep_first [] (rows df)))\<rparr> of
       Inl e \<Rightarrow> Inl e
     | Inr ok \<Rightarrow>
         Inr (\<lparr>schema = clean_schema t2 t5,
               rows = map (clean_record render rules fmt)
                        (filter (parseable render fmt) (keep_first [] (rows df)))\<rparr>,
              \<lparr>duplicates_removed = length (rows df) - length (keep_first [] (rows df)),
               invalid_dates = length (filter (\<lambda>r. \<not> parseable render fmt r) (keep_first [] (rows df)))\<rparr>))"
proof -
  let ?d = "drop_duplicates df"
  obtain t0 where t0: "map_of (schema df) ''date'' = Some t0"
    using raw column_type [of "''date''" df]
    by (auto simp add: validate_raw_data_ok EXPECTED_COLUMNS_def)
  have sd: "schema ?d = schema df" and rd: "rows ?d = keep_first [] (rows df)"
    by (simp_all add: drop_duplicates_def)
  let ?c = "\<lparr>schema = AList.update ''category_corrected'' Object (schema df),
          rows = map (\<lambda>r. AList.update ''category_corrected''
                    (Str (categorize_transaction render rules (cell_at r ''description''))) r)
                  (keep_first [] (rows df))\<rparr>"
  have s1: "categorize_step render rules ?d = Inr ?c"
    using categorize_step_eq [of ?d t2 render rules] t2 by (simp add: sd rd)
  let ?t = "\<lparr>schema = AList.update ''derived_transaction_type'' Object (schema ?c),
          rows = map (\<lambda>r. AList.update ''derived_transaction_type''
                    (Str (transaction_type_label (cell_at r ''amount''))) r) (rows ?c)\<rparr>"
  have am: "\<forall>r \<in> set (rows ?c). numeric_or_missing (cell_at r ''amount'')"
    using amounts by (simp add: cell_at_update set_keep_first)
  have s2: "derive_step ?c = Inr ?t"
    using derive_step_eq [of ?c t5] t5 am by (simp add: map_of_update)
  let ?p = "\<lparr>schema = AList.update ''date_dt'' Datetime64 (schema ?t),
           rows = map (\<lambda>r. AList.update ''date_dt'' (to_datetime render fmt (cell_at r ''date'')) r)
                    (filter (\<lambda>r. \<not> isna (to_datetime render fmt (cell_at r ''date''))) (rows ?t))\<rparr>"
  have s3: "parse_dates_step render fmt ?t =
      Inr (?p, length (filter (\<lambda>r. isna (to_datetime render fmt (cell_at r ''date''))) (rows ?t)))"
    using parse_dates_step_eq [of ?t t0 render fmt] t0 by (simp add: map_of_update)
  have inv: "length (filter (\<lambda>r. isna (to_datetime render fmt (cell_at r ''date''))) (rows ?t))
      = length (filter (\<lambda>r. \<not> parseable render fmt r) (keep_first [] (rows df)))"
    by (simp add: filter_map comp_def cell_at_update parseable_def)
  let ?out = "\<lparr>schema = clean_schema t2 t5,
             rows = map (clean_record render rules fmt)
                      (filter (parseable render fmt) (keep_first [] (rows df)))\<rparr>"
  have s4: "shape_step ?p = Inr ?out"
    using shape_step_eq [of ?p Datetime64 t2 Object Object t5] t2 t5
    by (simp add: map_of_update clean_schema_def filter_map comp_def cell_at_update
        parseable_def [abs_def] clean_record_def [abs_def])
  show ?thesis
    unfolding clean_transaction_data_def raw Let_def sd rd s1
    using s2 s3 s4 inv by simp
qed

section \<open>The clean gate\<close>

lemma isna_sum_zero: "(isna_sum (map f xs) = 0) = (\<forall>x \<in> set xs. \<not> isna (f x))"
  by (simp add: isna_sum_def filter_empty_conv)

lemma validate_clean_data_cascade:
  assumes "map_of (schema df) ''transaction_date'' = Some td"
    and "map_of (schema df) ''amount'' = Some ta"
    and "map_of (schema df) ''category'' = Some tc"
    and "map_of (schema df) ''transaction_type'' = Some tt"
  shows "validate_clean_data df =
    (if \<exists>r \<in> set (rows df). isna (cell_at r ''transaction_date'')
       then Inl (ValueError (Validation_failed ''No nulls in date''))
     else if \<exists>r \<in> set (rows df). isna (cell_at r ''amount'')
       then Inl (ValueError (Validation_failed ''No nulls in amount''))
     else if \<not> is_datetime64_any_dtype td
       then Inl (ValueError (Validation_failed ''Date is datetime''))
     else if \<not> is_numeric_dtype ta
       then Inl (ValueError (Validation_failed ''Amount is numeric''))
     else if \<exists>r \<in> set (rows df). isna (cell_at r ''category'')
       then Inl (ValueError (Validation_failed ''All categories assigned''))
     else if \<exists>r \<in> set (rows df). isna (cell_at r ''transaction_type'')
       then Inl (ValueError (Validation_failed ''All transaction types assigned''))
     else Inr True)"
  using assms by (simp add: validate_clean_data_def get_column_Some isna_sum_zero)

lemma get_column_None:
  "map_of (schema df) name = None \<Longrightarrow> get_column df name = Inl (KeyError name)"
  by (simp add: get_column_def)

lemma validate_clean_data_columns:
  assumes "validate_clean_data df = Inr ok"
  shows "\<exists>td ta tc tt. map_of (schema df) ''transaction_date'' = Some td
    \<and> map_of (schema df) ''amount'' = Some ta
    \<and> map_of (schema df) ''category'' = Some tc
    \<and> map_of (schema df) ''transaction_type'' = Some tt"
proof -
  have 1: "map_of (schema df) ''transaction_date'' \<noteq> None"
    using assms get_column_None [of df "''transaction_date''"]
    by (cases "map_of (schema df) ''transaction_date''") (simp_all add: validate_clean_data_def)
  have 2: "map_of (schema df) ''amount'' \<noteq> None"
    using assms get_column_None [of df "''amount''"]
    by (cases "map_of (schema df) ''amount''")
       (simp_all add: validate_clean_data_def split: sum.splits)
  have 3: "map_of (schema df) ''category'' \<noteq> None"
    using assms get_column_None [of df "''category''"]
    by (cases "map_of (schema df) ''category''")
       (simp_all add: validate_clean_data_def split: sum.splits)
  have 4: "map_of (schema df) ''transaction_type'' \<noteq> None"
    using assms get_column_None [of df "''transaction_type''"]
    by (cases "map_of (schema df) ''transaction_type''")
       (simp_all add: validate_clean_data_def split: sum.splits)
  show ?thesis using 1 2 3 4 by auto
qed

text \<open>
  C5. A frame that passes \<open>validate_clean_data\<close> has no missing date, no missing
  amount, a datetime date column, a numeric amount column, no missing category and no
  missing transaction type. On a frame that has the four columns, the validator raises
  \<open>ValueError("Validation failed: <check>")\<close> for the first check that fails, in the
  order of the dictionary \<open>checks\<close>, and returns \<open>True\<close> when none fails.
\<close>

theorem validate_clean_data_sound:
  "(validate_clean_data df = Inr ok \<longrightarrow>
      ok
      \<and> (\<forall>r \<in> set (rows df). \<not> isna (cell_at r ''transaction_date''))
      \<and> (\<forall>r \<in> set (rows df). \<not> isna (cell_at r ''amount''))
      \<and> (\<exists>t. map_of (schema df) ''transaction_date'' = Some t \<and> is_datetime64_any_dtype t)
      \<and> (\<exists>t. map_of (schema df) ''amount'' = Some t \<and> is_numeric_dtype t)
      \<and> (\<forall>r \<in> set (rows df). \<not> isna (cell_at r ''category''))
      \<and> (\<forall>r \<in> set (rows df). \<not> isna (cell_at r ''transaction_type'')))
   \<and> (map_of (schema df) ''transaction_date'' = Some td
        \<and> map_of (schema df) ''amount'' = Some ta
        \<and> map_of (schema df) ''category'' = Some tc
        \<and> map_of (schema df) ''transaction_type'' = Some tt \<longrightarrow>
      validate_clean_data df =
        (if \<exists>r \<in> set (rows df). isna (cell_at r ''transaction_date'')
           then Inl (ValueError (Validation_failed ''No nulls in date''))
         else if \<exists>r \<in> set (rows df). isna (cell_at r ''amount'')
           then Inl (ValueError (Validation_failed ''No nulls in amount''))
         else if \<not> is_datetime64_any_dtype td
           then Inl (ValueError (Validation_failed ''Date is datetime''))
         else if \<not> is_numeric_dtype ta
           then Inl (ValueError (Validation_failed ''Amount is numeric''))
         else if \<exists>r \<in> set (rows df). isna (cell_at r ''category'')
           then Inl (ValueError (Validation_failed ''All categories assigned''))
         else if \<exists>r \<in> set (rows df). isna (cell_at r ''transaction_type'')
           then Inl (ValueError (Validation_failed ''All transaction types assigned''))
         else Inr True))"
proof (intro conjI impI)
  assume pass: "validate_clean_data df = Inr ok"
  then obtain td' ta' tc' tt' where cols:
    "map_of (schema df) ''transaction_date'' = Some td'"
    "map_of (schema df) ''amount'' = Some ta'"
    "map_of (schema df) ''category'' = Some tc'"
    "map_of (schema df) ''transaction_type'' = Some tt'"
    using validate_clean_data_columns by blast
  note c = validate_clean_data_cascade [OF cols]
  show ok using pass unfolding c by (simp split: if_splits)
  show "\<forall>r \<in> set (rows df). \<not> isna (cell_at r ''transaction_date'')"
    using pass unfolding c by (simp split: if_splits)
  show "\<forall>r \<in> set (rows df). \<not> isna (cell_at r ''amount'')"
    using pass unfolding c by (simp split: if_splits)
  show "\<exists>t. map_of (schema df) ''transaction_date'' = Some t \<and> is_datetime64_any_dtype t"
    using pass cols(1) unfolding c by (simp split: if_splits)
  show "\<exists>t. map_of (schema df) ''amount'' = Some t \<and> is_numeric_dtype t"
    using pass cols(2) unfolding c by (simp split: if_splits)
  show "\<forall>r \<in> set (rows df). \<not> isna (cell_at r ''category'')"
    using pass unfolding c by (simp split: if_splits)
  show "\<forall>r \<in> set (rows df). \<not> isna (cell_at r ''transaction_type'')"
    using pass unfolding c by (simp split: if_splits)
next
  assume "map_of (schema df) ''transaction_date'' = Some td
        \<and> map_of (schema df) ''amount'' = Some ta
        \<and> map_of (schema df) ''category'' = Some tc
        \<and> map_of (schema df) ''transaction_type'' = Some tt"
  then show "validate_clean_data df =
        (if \<exists>r \<in> set (rows df). isna (cell_at r ''transaction_date'')
           then Inl (ValueError (Validation_failed ''No nulls in date''))
         else if \<exists>r \<in> set (rows df). isna (cell_at r ''amount'')
           then Inl (ValueError (Validation_failed ''No nulls in amount''))
         else if \<not> is_datetime64_any_dtype td
           then Inl (ValueError (Validation_failed ''Date is datetime''))
         else if \<not> is_numeric_dtype ta
           then Inl (ValueError (Validation_failed ''Amount is numeric''))
         else if \<exists>r \<in> set (rows df). isna (cell_at r ''category'')
           then Inl (ValueError (Validation_failed ''All categories assigned''))
         else if \<exists>r \<in> set (rows df). isna (cell_at r ''transaction_type'')
           then Inl (ValueError (Validation_failed ''All transaction types assigned''))
         else Inr True)"
    using validate_clean_data_cascade [of df td ta tc tt] by blast
qed

theorem validate_clean_data_sound_witness:
  "validate_clean_data clean_example = Inr True
   \<and> validate_clean_data broken_example
        = Inl (ValueError (Validation_failed ''No nulls in amount''))"
proof -
  have good: "validate_clean_data clean_example = Inr True"
    using validate_clean_data_sound [of clean_example True Datetime64 Float64 Object Object]
    by (simp add: clean_example_def clean_schema_def cell_at_def)
  have bad: "validate_clean_data broken_example
      = Inl (ValueError (Validation_failed ''No nulls in amount''))"
    using validate_clean_data_sound [of broken_example True Datetime64 Object Object Object]
    by (simp add: broken_example_def clean_schema_def cell_at_def)
  show ?thesis using good bad by simp
qed

section \<open>The outcome of the pipeline\<close>

lemma cell_at_clean_record:
  "cell_at (clean_record render rules fmt r) ''transaction_date'' = to_datetime render fmt (cell_at r ''date'')"
  "cell_at (clean_record render rules fmt r) ''amount'' = cell_at r ''amount''"
  "cell_at (clean_record render rules fmt r) ''category''
     = Str (categorize_transaction render rules (cell_at r ''description''))"
  "cell_at (clean_record render rules fmt r) ''transaction_type''
     = Str (transaction_type_label (cell_at r ''amount''))"
  by (simp_all add: clean_record_def cell_at_def)

lemma validate_clean_output:
  assumes "\<forall>r \<in> set kept. parseable render fmt r"
  shows "validate_clean_data
           \<lparr>schema = clean_schema t2 t5, rows = map (clean_record render rules fmt) kept\<rparr> =
    (if \<exists>r \<in> set kept. isna (cell_at r ''amount'')
       then Inl (ValueError (Validation_failed ''No nulls in amount''))
     else if \<not> is_numeric_dtype t5
       then Inl (ValueError (Validation_failed ''Amount is numeric''))
     else Inr True)"
proof -
  let ?out = "\<lparr>schema = clean_schema t2 t5, rows = map (clean_record render rules fmt) kept\<rparr>"
  have dates: "\<not> (\<exists>r \<in> set (rows ?out). isna (cell_at r ''transaction_date''))"
    using assms by (simp add: cell_at_clean_record parseable_def)
  have amounts: "(\<exists>r \<in> set (rows ?out). isna (cell_at r ''amount''))
      = (\<exists>r \<in> set kept. isna (cell_at r ''amount''))"
    by (simp add: cell_at_clean_record)
  have cats: "\<not> (\<exists>r \<in> set (rows ?out). isna (cell_at r ''category''))"
    by (simp add: cell_at_clean_record)
  have types: "\<not> (\<exists>r \<in> set (rows ?out). isna (cell_at r ''transaction_type''))"
    by (simp add: cell_at_clean_record)
  have "validate_clean_data ?out =
    (if \<exists>r \<in> set (rows ?out). isna (cell_at r ''transaction_date'')
       then Inl (ValueError (Validation_failed ''No nulls in date''))
     else if \<exists>r \<in> set (rows ?out). isna (cell_at r ''amount'')
       then Inl (ValueError (Validation_failed ''No nulls in amount''))
     else if \<not> is_datetime64_any_dtype Datetime64
       then Inl (ValueError (Validation_failed ''Date is datetime''))
     else if \<not> is_numeric_dtype t5
       then Inl (ValueError (Validation_failed ''Amount is numeric''))
     else if \<exists>r \<in> set (rows ?out). isna (cell_at r ''category'')
       then Inl (ValueError (Validation_failed ''All categories assigned''))
     else if \<exists>r \<in> set (rows ?out). isna (cell_at r ''transaction_type'')
       then Inl (ValueError (Validation_failed ''All transaction types assigned''))
     else Inr True)"
    by (rule validate_clean_data_cascade) (simp_all add: clean_schema_def)
  then show ?thesis
    unfolding amounts using dates cats types by simp
qed

lemma pipeline_outcome:
  assumes raw: "validate_raw_data df = Inr ()"
    and amounts: "\<forall>r \<in> set (rows df). numeric_or_missing (cell_at r ''amount'')"
    and t2: "map_of (schema df) ''description'' = Some t2"
    and t5: "map_of (schema df) ''amount'' = Some t5"
  shows "clean_transaction_data render rules fmt df =
    (if \<exists>r \<in> set (rows df). parseable render fmt r \<and> isna (cell_at r ''amount'')
       then Inl (ValueError (Validation_failed ''No nulls in amount''))
     else if \<not> is_numeric_dtype t5
       then Inl (ValueError (Validation_failed ''Amount is numeric''))
     else
       Inr (\<lparr>schema = clean_schema t2 t5,
             rows = map (clean_record render rules fmt)
                      (filter (parseable render fmt) (keep_first [] (rows df)))\<rparr>,
            \<lparr>duplicates_removed = length (rows df) - length (keep_first [] (rows df)),
             invalid_dates = length (filter (\<lambda>r. \<not> parseable render fmt r) (keep_first [] (rows df)))\<rparr>))"
proof -
  let ?kept = "filter (parseable render fmt) (keep_first [] (rows df))"
  have v: "validate_clean_data
           \<lparr>schema = clean_schema t2 t5, rows = map (clean_record render rules fmt) ?kept\<rparr> =
    (if \<exists>r \<in> set ?kept. isna (cell_at r ''amount'')
       then Inl (ValueError (Validation_failed ''No nulls in amount''))
     else if \<not> is_numeric_dtype t5
       then Inl (ValueError (Validation_failed ''Amount is numeric''))
     else Inr True)"
    by (rule validate_clean_output) simp
  have k: "(\<exists>r \<in> set ?kept. isna (cell_at r ''amount''))
      = (\<exists>r \<in> set (rows df). parseable render fmt r \<and> isna (cell_at r ''amount''))"
    by (auto simp add: set_keep_first)
  show ?thesis
    unfolding pipeline_steps [OF raw amounts t2 t5] v k by simp
qed

lemma pipeline_type_error:
  assumes raw: "validate_raw_data df = Inr ()"
    and nonnum: "\<exists>r \<in> set (rows df). \<not> numeric_or_missing (cell_at r ''amount'')"
  shows "clean_transaction_data render rules fmt df = Inl TypeError"
proof -
  obtain t2 where t2: "map_of (schema df) ''description'' = Some t2"
    using raw column_type [of "''description''" df]
    by (auto simp add: validate_raw_data_ok EXPECTED_COLUMNS_def)
  obtain t5 where t5: "map_of (schema df) ''amount'' = Some t5"
    using raw column_type [of "''amount''" df]
    by (auto simp add: validate_raw_data_ok EXPECTED_COLUMNS_def)
  let ?d = "drop_duplicates df"
  have sd: "schema ?d = schema df" and rd: "rows ?d = keep_first [] (rows df)"
    by (simp_all add: drop_duplicates_def)
  let ?c = "\<lparr>schema = AList.update ''category_corrected'' Object (schema df),
          rows = map (\<lambda>r. AList.update ''category_corrected''
                    (Str (categorize_transaction render rules (cell_at r ''description''))) r)
                  (keep_first [] (rows df))\<rparr>"
  have s1: "categorize_step render rules ?d = Inr ?c"
    using categorize_step_eq [of ?d t2 render rules] t2 by (simp add: sd rd)
  have "\<exists>r \<in> set (rows ?c). \<not> numeric_or_missing (cell_at r ''amount'')"
    using nonnum by (simp add: cell_at_update set_keep_first)
  then have s2: "derive_step ?c = Inl TypeError"
    using derive_step_text [of ?c t5] t5 by (simp add: map_of_update)
  show ?thesis
    unfolding clean_transaction_data_def raw Let_def s1 using s2 by simp
qed

section \<open>The raw gate\<close>



section \<open>Scenario A\<close>

lemma parse_starbucks_date:
  "strptime DATE_FORMAT ''01/05/2024'' = Some (Date 2024 1 5)"
  by (simp add: strptime_def DATE_FORMAT_def directive_def two_digits_def one_digit_def
      is_digit_def digit_val_def field_def days_in_month_def is_leap_def)



lemma categorize_starbucks:
  "categorize_transaction render CATEGORY_PATTERNS (Str ''STARBUCKS #123'') = ''Food & Dining''"
  by (simp add: categorize_transaction_def CATEGORY_PATTERNS_def upper_def is_space_def)

lemma clean_record_starbucks:
  assumes "cell_at r ''date'' = Str ''01/05/2024''"
    and "cell_at r ''description'' = Str ''STARBUCKS #123''"
    and "cell_at r ''amount'' = Num (- 4.5)"
  shows "clean_record render CATEGORY_PATTERNS DATE_FORMAT r =
     [(''transaction_date'', Ts (Date 2024 1 5)), (''transaction_desc'', Str ''STARBUCKS #123''),
      (''category'', Str ''Food & Dining''), (''transaction_type'', Str ''Debit''),
      (''amount'', Num (- 4.5)), (''month_year'', Str ''2024-01'')]"
  using assms
  by (simp add: clean_record_def parse_starbucks_date categorize_starbucks
      strftime_Y_m_def digit_char_def)

text \<open>
  C8. The batch of the single row with date \<open>01/05/2024\<close>, description
  \<open>STARBUCKS #123\<close> and amount \<open>-4.50\<close>, whatever its \<open>category\<close> and
  \<open>transaction_type\<close> columns hold, gives exactly one record: the date is the fifth of
  January 2024 (month first), the category \<open>Food & Dining\<close>, the transaction type
  \<open>Debit\<close> and \<open>month_year\<close> is \<open>2024-01\<close>.
\<close>

theorem scenario_A_clean_record:
  "clean_transaction_data render CATEGORY_PATTERNS DATE_FORMAT
     \<lparr>schema = [(''date'', Object), (''description'', Object), (''category'', tc),
                (''transaction_type'', tt), (''amount'', Float64)],
      rows = [[(''date'', Str ''01/05/2024''), (''description'', Str ''STARBUCKS #123''),
               (''category'', c), (''transaction_type'', t), (''amount'', Num (- 4.5))]]\<rparr>
   = Inr (\<lparr>schema = [(''transaction_date'', Datetime64), (''transaction_desc'', Object),
                     (''category'', Object), (''transaction_type'', Object),
                     (''amount'', Float64), (''month_year'', Object)],
           rows = [[(''transaction_date'', Ts (Date 2024 1 5)),
                    (''transaction_desc'', Str ''STARBUCKS #123''),
                    (''category'', Str ''Food & Dining''), (''transaction_type'', Str ''Debit''),
                    (''amount'', Num (- 4.5)), (''month_year'', Str ''2024-01'')]]\<rparr>,
          \<lparr>duplicates_removed = 0, invalid_dates = 0\<rparr>)"
proof -
  let ?r = "[(''date'', Str ''01/05/2024''), (''description'', Str ''STARBUCKS #123''),
             (''category'', c), (''transaction_type'', t), (''amount'', Num (- 4.5))]"
  let ?df = "\<lparr>schema = [(''date'', Object), (''description'', Object), (''category'', tc),
                (''transaction_type'', tt), (''amount'', Float64)], rows = [?r]\<rparr>"
  have raw: "validate_raw_data ?df = Inr ()"
    by (simp add: validate_raw_data_ok EXPECTED_COLUMNS_def columns_def)
  have amounts: "\<forall>r \<in> set (rows ?df). numeric_or_missing (cell_at r ''amount'')"
    by (simp add: cell_at_def)
  have p: "parseable render DATE_FORMAT ?r"
    by (simp add: parseable_def cell_at_def parse_starbucks_date)
  have rec: "clean_record render CATEGORY_PATTERNS DATE_FORMAT ?r =
     [(''transaction_date'', Ts (Date 2024 1 5)), (''transaction_desc'', Str ''STARBUCKS #123''),
      (''category'', Str ''Food & Dining''), (''transaction_type'', Str ''Debit''),
      (''amount'', Num (- 4.5)), (''month_year'', Str ''2024-01'')]"
    by (rule clean_record_starbucks) (simp_all add: cell_at_def)
  have present: "cell_at ?r ''amount'' = Num (- 4.5)"
    by (simp add: cell_at_def)
  show ?thesis
    using pipeline_outcome [of ?df Object Float64 render CATEGORY_PATTERNS DATE_FORMAT,
        OF raw amounts] p rec present
    by (simp add: clean_schema_def)
qed

theorem scenario_A_clean_record_witness:
  "clean_transaction_data (\<lambda>c. '''') CATEGORY_PATTERNS DATE_FORMAT scenario_A
     = Inr (clean_example, \<lparr>duplicates_removed = 0, invalid_dates = 0\<rparr>)
   \<and> map (\<lambda>r. (cell_at r ''category'', cell_at r ''transaction_type'', cell_at r ''month_year''))
        (rows clean_example)
      = [(Str ''Food & Dining'', Str ''Debit'', Str ''2024-01'')]"
  using scenario_A_clean_record [of "\<lambda>c. ''''" Float64 Float64 NaN NaN]
  by (simp add: scenario_A_def raw_schema_def raw_row_def clean_example_def clean_schema_def
      cell_at_def)

section \<open>Deduplication\<close>

lemma keep_first_snoc:
  "keep_first seen (xs @ [x]) =
     keep_first seen xs @ (if x \<in> set seen \<union> set xs then [] else [x])"
  by (induction xs arbitrary: seen) auto

lemma distinct_keep_first: "distinct (keep_first seen xs)"
  by (induction xs arbitrary: seen) (auto simp add: set_keep_first)

lemma keep_first_distinct:
  "distinct xs \<Longrightarrow> set xs \<inter> set seen = {} \<Longrightarrow> keep_first seen xs = xs"
  by (induction xs arbitrary: seen) auto

lemma keep_first_idem: "keep_first [] (keep_first [] xs) = keep_first [] xs"
  by (rule keep_first_distinct) (simp_all add: distinct_keep_first)

lemma keep_first_earlier:
  "keep_first [] xs = map (\<lambda>i. xs ! i) (filter (\<lambda>i. xs ! i \<notin> set (take i xs)) [0..<length xs])"
proof (induction xs rule: rev_induct)
  case Nil
  then show ?case by simp
next
  case (snoc x xs)
  have a: "filter (\<lambda>i. (xs @ [x]) ! i \<notin> set (take i (xs @ [x]))) [0..<length xs]
      = filter (\<lambda>i. xs ! i \<notin> set (take i xs)) [0..<length xs]"
    by (rule filter_cong) (auto simp add: nth_append)
  have b: "map (\<lambda>i. (xs @ [x]) ! i) (filter (\<lambda>i. xs ! i \<notin> set (take i xs)) [0..<length xs])
      = map (\<lambda>i. xs ! i) (filter (\<lambda>i. xs ! i \<notin> set (take i xs)) [0..<length xs])"
    by (rule map_cong) (auto simp add: nth_append)
  show ?case
    using snoc a b by (simp add: keep_first_snoc)
qed

lemma validate_raw_data_dedup:
  "validate_raw_data (drop_duplicates df) = validate_raw_data df"
proof -
  have "(keep_first [] (rows df) = []) = (rows df = [])"
    by (cases "rows df") simp_all
  then show ?thesis
    by (simp add: validate_raw_data_def drop_duplicates_def df_empty_def columns_def)
qed

lemma drop_duplicates_idem: "drop_duplicates (drop_duplicates df) = drop_duplicates df"
  by (simp add: drop_duplicates_def keep_first_idem)

lemma pipeline_dedup:
  "map_sum id fst (clean_transaction_data render rules fmt (drop_duplicates df))
     = map_sum id fst (clean_transaction_data render rules fmt df)"
  unfolding clean_transaction_data_def validate_raw_data_dedup drop_duplicates_idem Let_def
  by (simp split: sum.splits prod.splits)

lemma pipeline_count:
  "clean_transaction_data render rules fmt df = Inr (out, rep) \<Longrightarrow>
   duplicates_removed rep = length (rows df) - length (rows (drop_duplicates df))"
  unfolding clean_transaction_data_def Let_def
  by (auto split: sum.splits prod.splits)

lemma pipeline_passed_raw:
  "clean_transaction_data render rules fmt df = Inr x \<Longrightarrow> validate_raw_data df = Inr ()"
  by (cases "validate_raw_data df") (simp_all add: clean_transaction_data_def)

lemma pipeline_passed_amounts:
  assumes "clean_transaction_data render rules fmt df = Inr x"
  shows "\<forall>r \<in> set (rows df). numeric_or_missing (cell_at r ''amount'')"
proof (rule ccontr)
  assume "\<not> (\<forall>r \<in> set (rows df). numeric_or_missing (cell_at r ''amount''))"
  then have "clean_transaction_data render rules fmt df = Inl TypeError"
    using pipeline_type_error [of df render rules fmt] pipeline_passed_raw [OF assms] by blast
  with assms show False by simp
qed

lemma pipeline_twice:
  assumes two: "rows df = [r, r]"
    and run: "clean_transaction_data render rules fmt df = Inr (out, rep)"
    and date: "parseable render fmt r"
  shows "duplicates_removed rep = 1 \<and> rows out = [clean_record render rules fmt r]"
proof -
  have raw: "validate_raw_data df = Inr ()"
    using run by (rule pipeline_passed_raw)
  have amounts: "\<forall>r \<in> set (rows df). numeric_or_missing (cell_at r ''amount'')"
    using run by (rule pipeline_passed_amounts)
  obtain t2 where t2: "map_of (schema df) ''description'' = Some t2"
    using raw column_type [of "''description''" df]
    by (auto simp add: validate_raw_data_ok EXPECTED_COLUMNS_def)
  obtain t5 where t5: "map_of (schema df) ''amount'' = Some t5"
    using raw column_type [of "''amount''" df]
    by (auto simp add: validate_raw_data_ok EXPECTED_COLUMNS_def)
  show ?thesis
    using pipeline_outcome [OF raw amounts t2 t5, of render rules fmt] run two date
    by (auto split: if_splits)
qed

text \<open>
  C6. Deduplication is idempotent and leaves a batch without duplicates as it is; it keeps
  the columns; it keeps, in order, exactly the rows that no earlier row equals in every
  column. It runs before the transformation: the outcome of the pipeline, error or clean
  batch, is the outcome on the deduplicated batch, so duplicates never cause an error;
  the number of removed rows is reported. A batch of two identical rows with a date that
  parses gives one record and a count of one.
\<close>

theorem drop_duplicates_properties:
  "drop_duplicates (drop_duplicates df) = drop_duplicates df
   \<and> (distinct (rows df) \<longrightarrow> drop_duplicates df = df)
   \<and> schema (drop_duplicates df) = schema df
   \<and> rows (drop_duplicates df)
        = map (\<lambda>i. rows df ! i)
            (filter (\<lambda>i. rows df ! i \<notin> set (take i (rows df))) [0..<length (rows df)])
   \<and> map_sum id fst (clean_transaction_data render rules fmt df)
        = map_sum id fst (clean_transaction_data render rules fmt (drop_duplicates df))
   \<and> (clean_transaction_data render rules fmt df = Inr (out, rep) \<longrightarrow>
        duplicates_removed rep = length (rows df) - length (rows (drop_duplicates df)))
   \<and> (rows df = [r, r] \<and> parseable render fmt r
        \<and> clean_transaction_data render rules fmt df = Inr (out, rep) \<longrightarrow>
        duplicates_removed rep = 1 \<and> length (rows out) = 1)"
proof (intro conjI impI)
  show "drop_duplicates (drop_duplicates df) = drop_duplicates df"
    by (rule drop_duplicates_idem)
  show "schema (drop_duplicates df) = schema df"
    by (simp add: drop_duplicates_def)
  show "rows (drop_duplicates df)
        = map (\<lambda>i. rows df ! i)
            (filter (\<lambda>i. rows df ! i \<notin> set (take i (rows df))) [0..<length (rows df)])"
    using keep_first_earlier [of "rows df"] by (simp add: drop_duplicates_def)
  show "map_sum id fst (clean_transaction_data render rules fmt df)
        = map_sum id fst (clean_transaction_data render rules fmt (drop_duplicates df))"
    by (simp add: pipeline_dedup)
next
  assume "distinct (rows df)"
  then show "drop_duplicates df = df"
    by (simp add: drop_duplicates_def keep_first_distinct)
next
  assume "clean_transaction_data render rules fmt df = Inr (out, rep)"
  then show "duplicates_removed rep = length (rows df) - length (rows (drop_duplicates df))"
    by (rule pipeline_count)
next
  assume a: "rows df = [r, r] \<and> parseable render fmt r
        \<and> clean_transaction_data render rules fmt df = Inr (out, rep)"
  then show "duplicates_removed rep = 1"
    using pipeline_twice [of df r render rules fmt out rep] by blast
  from a show "length (rows out) = 1"
    using pipeline_twice [of df r render rules fmt out rep] by simp
qed

lemma scenario_D_run:
  "clean_transaction_data render CATEGORY_PATTERNS DATE_FORMAT scenario_D
     = Inr (clean_example, \<lparr>duplicates_removed = 1, invalid_dates = 0\<rparr>)"
proof -
  let ?r = "raw_row (Str ''01/05/2024'') (Str ''STARBUCKS #123'') (Num (- 4.5))"
  have raw: "validate_raw_data scenario_D = Inr ()"
    by (simp add: validate_raw_data_ok EXPECTED_COLUMNS_def columns_def scenario_D_def
        raw_schema_def)
  have amounts: "\<forall>r \<in> set (rows scenario_D). numeric_or_missing (cell_at r ''amount'')"
    by (simp add: scenario_D_def raw_row_def cell_at_def)
  have t2: "map_of (schema scenario_D) ''description'' = Some Object"
    and t5: "map_of (schema scenario_D) ''amount'' = Some Float64"
    by (simp_all add: scenario_D_def raw_schema_def)
  have p: "parseable render DATE_FORMAT ?r"
    by (simp add: parseable_def raw_row_def cell_at_def parse_starbucks_date)
  have rec: "clean_record render CATEGORY_PATTERNS DATE_FORMAT ?r =
     [(''transaction_date'', Ts (Date 2024 1 5)), (''transaction_desc'', Str ''STARBUCKS #123''),
      (''category'', Str ''Food & Dining''), (''transaction_type'', Str ''Debit''),
      (''amount'', Num (- 4.5)), (''month_year'', Str ''2024-01'')]"
    by (rule clean_record_starbucks) (simp_all add: raw_row_def cell_at_def)
  have present: "cell_at ?r ''amount'' = Num (- 4.5)"
    by (simp add: raw_row_def cell_at_def)
  have r: "rows scenario_D = [?r, ?r]"
    by (simp add: scenario_D_def)
  show ?thesis
    unfolding pipeline_outcome [OF raw amounts t2 t5] r
    using p rec present by (simp add: clean_example_def)
qed

theorem drop_duplicates_properties_witness:
  "rows (drop_duplicates scenario_D)
     = [raw_row (Str ''01/05/2024'') (Str ''STARBUCKS #123'') (Num (- 4.5))]
   \<and> clean_transaction_data (\<lambda>c. '''') CATEGORY_PATTERNS DATE_FORMAT scenario_D
        = Inr (clean_example, \<lparr>duplicates_removed = 1, invalid_dates = 0\<rparr>)
   \<and> length (rows clean_example) = 1
   \<and> duplicates_removed \<lparr>duplicates_removed = 1, invalid_dates = 0\<rparr> = 1"
proof -
  let ?r = "raw_row (Str ''01/05/2024'') (Str ''STARBUCKS #123'') (Num (- 4.5))"
  have run: "clean_transaction_data (\<lambda>c. '''') CATEGORY_PATTERNS DATE_FORMAT scenario_D
      = Inr (clean_example, \<lparr>duplicates_removed = 1, invalid_dates = 0\<rparr>)"
    by (rule scenario_D_run)
  have two: "rows scenario_D = [?r, ?r]"
    by (simp add: scenario_D_def)
  have p: "parseable (\<lambda>c. '''') DATE_FORMAT ?r"
    by (simp add: parseable_def raw_row_def cell_at_def parse_starbucks_date)
  have kept: "rows (drop_duplicates scenario_D) = [?r]"
    using drop_duplicates_properties [of scenario_D] two by (simp add: drop_duplicates_def)
  have one: "duplicates_removed \<lparr>duplicates_removed = 1, invalid_dates = 0\<rparr> = 1
      \<and> length (rows clean_example) = 1"
    using drop_duplicates_properties
      [of scenario_D "\<lambda>c. ''''" CATEGORY_PATTERNS DATE_FORMAT clean_example
          "\<lparr>duplicates_removed = 1, invalid_dates = 0\<rparr>" ?r]
      two p run
    by blast
  show ?thesis using kept run one by simp
qed

section \<open>Rows with unparseable dates\<close>





section \<open>A batch whose dates are all unparseable\<close>




section \<open>The failure route of the watcher\<close>




















end
